theory Spec2Isabelle
  imports Main
begin

section \<open>Python values\<close>

text \<open>
  A Python \<open>str\<close> is a sequence of Unicode code points, so a string is a list of
  numbers; \<open>ustr\<close> writes an ASCII literal. A file holds bytes, numbers below 256.
  A quote is a \<open>dict\<close>: an association list in insertion order, looked up with
  \<open>map_of\<close>. Its values are the two types of the data model, integers and
  strings; a key may be missing.
\<close>

type_synonym pystr = "nat list"

type_synonym bytes = "nat list"

definition ustr :: "string \<Rightarrow> pystr" where
  "ustr s = map of_char s"

datatype pyval = PyInt int | PyStr pystr

type_synonym quote = "(pystr \<times> pyval) list"

text \<open>
  The exceptions the program can meet. \<open>Exit\<close> is \<open>typer.Exit\<close>, which the
  command-line framework turns into a clean end of the process.
  \<open>NotACollection\<close> is no Python exception: it marks a file whose JSON is valid but
  is not an array of objects with integer and string members, where the model stops.
\<close>

datatype exn = Exit | KeyError | TypeError | ValueError | AttributeError | EOFError
  | UnicodeDecodeError | UnicodeEncodeError | NotACollection

definition getitem :: "quote \<Rightarrow> pystr \<Rightarrow> exn + pyval" where
  "getitem q k = (case map_of q k of None \<Rightarrow> Inl KeyError | Some v \<Rightarrow> Inr v)"

definition dict_get :: "quote \<Rightarrow> pystr \<Rightarrow> pyval option" where
  "dict_get q k = map_of q k"

fun truthy :: "pyval option \<Rightarrow> bool" where
  "truthy None = False"
| "truthy (Some (PyInt n)) = (n \<noteq> 0)"
| "truthy (Some (PyStr s)) = (s \<noteq> [])"

fun str_nat :: "nat \<Rightarrow> pystr" where
  "str_nat n = (if n < 10 then [48 + n] else str_nat (n div 10) @ [48 + n mod 10])"

declare str_nat.simps [simp del]

definition str_int :: "int \<Rightarrow> pystr" where
  "str_int i = (if i < 0 then 45 # str_nat (nat (- i)) else str_nat (nat i))"

fun py_str :: "pyval \<Rightarrow> pystr" where
  "py_str (PyInt n) = str_int n"
| "py_str (PyStr s) = s"

fun str_lt :: "pystr \<Rightarrow> pystr \<Rightarrow> bool" where
  "str_lt [] [] = False"
| "str_lt [] (y # ys) = True"
| "str_lt (x # xs) [] = False"
| "str_lt (x # xs) (y # ys) = (x < y \<or> (x = y \<and> str_lt xs ys))"

fun py_gt :: "pyval \<Rightarrow> pyval \<Rightarrow> exn + bool" where
  "py_gt (PyInt a) (PyInt b) = Inr (b < a)"
| "py_gt (PyStr a) (PyStr b) = Inr (str_lt b a)"
| "py_gt (PyInt a) (PyStr b) = Inl TypeError"
| "py_gt (PyStr a) (PyInt b) = Inl TypeError"

fun py_add :: "pyval \<Rightarrow> pyval \<Rightarrow> exn + pyval" where
  "py_add (PyInt a) (PyInt b) = Inr (PyInt (a + b))"
| "py_add (PyStr a) (PyStr b) = Inr (PyStr (a @ b))"
| "py_add (PyInt a) (PyStr b) = Inl TypeError"
| "py_add (PyStr a) (PyInt b) = Inl TypeError"

subsection \<open>\<open>str.strip\<close> and \<open>str.lower\<close>\<close>

text \<open>
  \<open>strip\<close> removes the code points for which \<open>str.isspace\<close> holds from both ends.
  \<open>lower\<close> follows the Unicode character database of the interpreter, which is no
  part of the repository: the model takes the function from the world (below), and no
  theorem depends on what it maps. \<open>lowers_ascii\<close> says of such a function what
  \<open>str.lower\<close> does on strings of ASCII characters: the letters A to Z become a to z
  and nothing else changes.
\<close>

definition isspace :: "nat \<Rightarrow> bool" where
  "isspace c = ((9 \<le> c \<and> c \<le> 13) \<or> (28 \<le> c \<and> c \<le> 32) \<or> c = 133 \<or> c = 160
     \<or> c = 5760 \<or> (8192 \<le> c \<and> c \<le> 8202) \<or> c = 8232 \<or> c = 8233 \<or> c = 8239
     \<or> c = 8287 \<or> c = 12288)"

definition py_strip :: "pystr \<Rightarrow> pystr" where
  "py_strip s = rev (dropWhile isspace (rev (dropWhile isspace s)))"

definition ascii_lower :: "pystr \<Rightarrow> pystr" where
  "ascii_lower s = map (\<lambda>c. if 65 \<le> c \<and> c \<le> 90 then c + 32 else c) s"

definition lowers_ascii :: "(pystr \<Rightarrow> pystr) \<Rightarrow> bool" where
  "lowers_ascii f = (\<forall>s. list_all (\<lambda>c. c < 128) s \<longrightarrow> f s = ascii_lower s)"

section \<open>The world: file, console, random source\<close>

text \<open>
  \<open>data_file\<close> is \<open>quotes.json\<close>: \<open>None\<close> when the file does not exist, else its
  bytes. \<open>stdin\<close> holds the lines still to be read. \<open>stdout\<close> records what was
  written: \<open>Print s\<close> for \<open>print(s)\<close>, \<open>Prompt s\<close> for the prompt of
  \<open>input(s)\<close>. \<open>rng\<close> is the sequence of raw numbers the random source will
  deliver. \<open>str_lower\<close> is the interpreter's \<open>str.lower\<close>; nothing changes it.
\<close>

datatype event = Print pystr | Prompt pystr

record world =
  data_file :: "bytes option"
  stdin :: "pystr list"
  stdout :: "event list"
  rng :: "nat \<Rightarrow> nat"
  str_lower :: "pystr \<Rightarrow> pystr"

definition py_print :: "pystr \<Rightarrow> world \<Rightarrow> world" where
  "py_print s w = w\<lparr>stdout := stdout w @ [Print s]\<rparr>"

definition py_input :: "pystr \<Rightarrow> world \<Rightarrow> (exn + pystr) \<times> world" where
  "py_input p w =
     (case stdin w of
        [] \<Rightarrow> (Inl EOFError, w\<lparr>stdout := stdout w @ [Prompt p]\<rparr>)
      | l # ls \<Rightarrow> (Inr l, w\<lparr>stdout := stdout w @ [Prompt p], stdin := ls\<rparr>))"

subsection \<open>\<open>random.choice\<close> and \<open>random.sample\<close>\<close>

text \<open>
  \<open>randbelow n\<close> takes the next raw number, reduced below \<open>n\<close>.
  \<open>random.choice(seq)\<close> is \<open>seq[randbelow(len(seq))]\<close>.
  \<open>random.sample(population, k)\<close> raises \<open>ValueError\<close> unless
  \<open>0 \<le> k \<le> len(population)\<close>; then it selects from a pool: it draws a position
  below the number \<open>n\<close> of items not yet selected, takes the item there and moves the
  last non-selected item into the vacancy.
\<close>

definition randbelow :: "nat \<Rightarrow> (nat \<Rightarrow> nat) \<Rightarrow> nat \<times> (nat \<Rightarrow> nat)" where
  "randbelow n g = (g 0 mod n, \<lambda>i. g (Suc i))"

definition random_choice :: "'a list \<Rightarrow> world \<Rightarrow> 'a \<times> world" where
  "random_choice xs w =
     (let (j, g) = randbelow (length xs) (rng w) in (xs ! j, w\<lparr>rng := g\<rparr>))"

fun sample_pool :: "'a list \<Rightarrow> nat \<Rightarrow> nat \<Rightarrow> (nat \<Rightarrow> nat) \<Rightarrow> 'a list \<times> (nat \<Rightarrow> nat)" where
  "sample_pool pool n 0 g = ([], g)"
| "sample_pool pool n (Suc m) g =
     (let (j, g1) = randbelow n g;
          x = pool ! j;
          (rest, g2) = sample_pool (pool[j := pool ! (n - 1)]) (n - 1) m g1
      in (x # rest, g2))"

definition random_sample :: "'a list \<Rightarrow> int \<Rightarrow> world \<Rightarrow> (exn + 'a list) \<times> world" where
  "random_sample population k w =
     (if \<not> (0 \<le> k \<and> k \<le> int (length population)) then (Inl ValueError, w)
      else let (result, g) = sample_pool population (length population) (nat k) (rng w)
           in (Inr result, w\<lparr>rng := g\<rparr>))"

section \<open>The store\<close>

fun max_ids :: "pyval \<Rightarrow> quote list \<Rightarrow> exn + pyval" where
  "max_ids m [] = Inr m"
| "max_ids m (q # qs) =
     (case getitem q (ustr ''id'') of
        Inl e \<Rightarrow> Inl e
      | Inr v \<Rightarrow> (case py_gt v m of
                   Inl e \<Rightarrow> Inl e
                 | Inr b \<Rightarrow> max_ids (if b then v else m) qs))"

text \<open>
  \<open>max(q["id"] for q in quotes) + 1\<close>: the generator reads the ids one at a time, and
  \<open>max\<close> keeps the first of them until a later one is greater.
\<close>

definition get_next_id :: "quote list \<Rightarrow> exn + pyval" where
  "get_next_id quotes =
     (case quotes of
        [] \<Rightarrow> Inr (PyInt 1)
      | q # qs \<Rightarrow>
          (case getitem q (ustr ''id'') of
             Inl e \<Rightarrow> Inl e
           | Inr v \<Rightarrow> (case max_ids v qs of
                        Inl e \<Rightarrow> Inl e
                      | Inr m \<Rightarrow> py_add m (PyInt 1))))"

subsection \<open>UTF-8\<close>

text \<open>
  The file is opened with \<open>encoding="utf-8"\<close> and strict error handling. Writing a
  code point in the surrogate range raises \<open>UnicodeEncodeError\<close>; reading bytes
  that are no UTF-8 (a stray continuation byte, an overlong form, a surrogate, a value
  above \<open>0x10FFFF\<close>) raises \<open>UnicodeDecodeError\<close>.
\<close>

definition utf8_encode_char :: "nat \<Rightarrow> bytes option" where
  "utf8_encode_char c =
     (if c < 128 then Some [c]
      else if c < 2048 then Some [192 + c div 64, 128 + c mod 64]
      else if c < 65536 then
        (if 55296 \<le> c \<and> c < 57344 then None
         else Some [224 + c div 4096, 128 + c div 64 mod 64, 128 + c mod 64])
      else if c < 1114112 then
        Some [240 + c div 262144, 128 + c div 4096 mod 64, 128 + c div 64 mod 64, 128 + c mod 64]
      else None)"

fun utf8_encode :: "pystr \<Rightarrow> bytes option" where
  "utf8_encode [] = Some []"
| "utf8_encode (c # cs) =
     (case utf8_encode_char c of
        None \<Rightarrow> None
      | Some bs \<Rightarrow> map_option ((@) bs) (utf8_encode cs))"

definition is_cont :: "nat \<Rightarrow> bool" where
  "is_cont b = (128 \<le> b \<and> b < 192)"

fun utf8_decode :: "bytes \<Rightarrow> pystr option" where
  "utf8_decode [] = Some []"
| "utf8_decode (b0 # bs) =
     (if b0 < 128 then map_option ((#) b0) (utf8_decode bs)
      else if 194 \<le> b0 \<and> b0 < 224 then
        (case bs of
           b1 # r \<Rightarrow>
             if is_cont b1
             then map_option ((#) ((b0 - 192) * 64 + (b1 - 128))) (utf8_decode r)
             else None
         | _ \<Rightarrow> None)
      else if 224 \<le> b0 \<and> b0 < 240 then
        (case bs of
           b1 # b2 # r \<Rightarrow>
             (let c = (b0 - 224) * 4096 + (b1 - 128) * 64 + (b2 - 128)
              in if is_cont b1 \<and> is_cont b2 \<and> 2048 \<le> c \<and> \<not> (55296 \<le> c \<and> c < 57344)
                 then map_option ((#) c) (utf8_decode r)
                 else None)
         | _ \<Rightarrow> None)
      else if 240 \<le> b0 \<and> b0 < 245 then
        (case bs of
           b1 # b2 # b3 # r \<Rightarrow>
             (let c = (b0 - 240) * 262144 + (b1 - 128) * 4096 + (b2 - 128) * 64 + (b3 - 128)
              in if is_cont b1 \<and> is_cont b2 \<and> is_cont b3 \<and> 65536 \<le> c \<and> c < 1114112
                 then map_option ((#) c) (utf8_decode r)
                 else None)
         | _ \<Rightarrow> None)
      else None)"

subsection \<open>\<open>json.dump\<close> with \<open>indent=2, ensure_ascii=False\<close>\<close>

text \<open>
  The encoder yields the text in chunks, and \<open>json.dump\<close> writes each chunk to the
  file. A string is written between double quotes with \<open>"\<close>, \<open>\\<close> and the control
  characters below \<open>0x20\<close> escaped, and every other code point as it is.
\<close>

definition hex_digit :: "nat \<Rightarrow> nat" where
  "hex_digit d = (if d < 10 then 48 + d else 87 + d)"

definition escape_char :: "nat \<Rightarrow> pystr" where
  "escape_char c =
     (if c = 34 then [92, 34]
      else if c = 92 then [92, 92]
      else if c = 10 then [92, 110]
      else if c = 13 then [92, 114]
      else if c = 9 then [92, 116]
      else if c = 8 then [92, 98]
      else if c = 12 then [92, 102]
      else if c < 32 then [92, 117, 48, 48, hex_digit (c div 16), hex_digit (c mod 16)]
      else [c])"

definition encode_basestring :: "pystr \<Rightarrow> pystr" where
  "encode_basestring s = 34 # concat (map escape_char s) @ [34]"

fun encode_value :: "pyval \<Rightarrow> pystr" where
  "encode_value (PyStr s) = encode_basestring s"
| "encode_value (PyInt n) = str_int n"

definition newline_indent :: "nat \<Rightarrow> pystr" where
  "newline_indent level = 10 # replicate (2 * level) 32"

fun dict_items_chunks :: "bool \<Rightarrow> quote \<Rightarrow> pystr list" where
  "dict_items_chunks first [] = []"
| "dict_items_chunks first ((k, v) # items) =
     (if first then [] else [44 # newline_indent 2])
     @ [encode_basestring k, ustr '': '', encode_value v]
     @ dict_items_chunks False items"

definition iterencode_dict :: "quote \<Rightarrow> pystr list" where
  "iterencode_dict dct =
     (if dct = [] then [ustr ''{}'']
      else [ustr ''{'', newline_indent 2] @ dict_items_chunks True dct
           @ [newline_indent 1, ustr ''}''])"

fun list_items_chunks :: "bool \<Rightarrow> quote list \<Rightarrow> pystr list" where
  "list_items_chunks first [] = []"
| "list_items_chunks first (d # ds) =
     [if first then 91 # newline_indent 1 else 44 # newline_indent 1]
     @ iterencode_dict d
     @ list_items_chunks False ds"

definition iterencode :: "quote list \<Rightarrow> pystr list" where
  "iterencode lst =
     (if lst = [] then [ustr ''[]'']
      else list_items_chunks True lst @ [newline_indent 0, ustr '']''])"

fun write_chunks :: "pystr list \<Rightarrow> bytes \<Rightarrow> (exn + unit) \<times> bytes" where
  "write_chunks [] content = (Inr (), content)"
| "write_chunks (c # cs) content =
     (case utf8_encode c of
        None \<Rightarrow> (Inl UnicodeEncodeError, content)
      | Some bs \<Rightarrow> write_chunks cs (content @ bs))"

text \<open>
  \<open>save_quotes\<close>: opening the file for writing empties it; an encoding error leaves
  in it the chunks written before.
\<close>

definition save_quotes :: "quote list \<Rightarrow> world \<Rightarrow> (exn + unit) \<times> world" where
  "save_quotes quotes w =
     (let (r, content) = write_chunks (iterencode quotes) []
      in (r, w\<lparr>data_file := Some content\<rparr>))"

subsection \<open>\<open>json.load\<close>\<close>

text \<open>
  The values of JSON. A number with a fraction or an exponent, and the constants
  \<open>NaN\<close>, \<open>Infinity\<close> and \<open>-Infinity\<close>, become a Python float: the model keeps
  the text of the literal and does not compute with it. An object becomes a
  \<open>dict\<close>: a repeated key keeps its first place and takes the last value.
\<close>

datatype jval = JNull | JBool bool | JInt int | JFloat pystr | JStr pystr
  | JArr "jval list" | JObj "(pystr \<times> jval) list"

datatype 'a presult = Ok 'a | Bad | OutOfFuel

fun dict_set :: "'k \<Rightarrow> 'v \<Rightarrow> ('k \<times> 'v) list \<Rightarrow> ('k \<times> 'v) list" where
  "dict_set k v [] = [(k, v)]"
| "dict_set k v ((k', v') # d) = (if k' = k then (k, v) # d else (k', v') # dict_set k v d)"

definition is_ws :: "nat \<Rightarrow> bool" where
  "is_ws c = (c = 32 \<or> c = 9 \<or> c = 10 \<or> c = 13)"

definition skip_ws :: "pystr \<Rightarrow> pystr" where
  "skip_ws s = dropWhile is_ws s"

definition is_digit :: "nat \<Rightarrow> bool" where
  "is_digit c = (48 \<le> c \<and> c \<le> 57)"

definition hex_val :: "nat \<Rightarrow> nat option" where
  "hex_val c =
     (if 48 \<le> c \<and> c \<le> 57 then Some (c - 48)
      else if 97 \<le> c \<and> c \<le> 102 then Some (c - 87)
      else if 65 \<le> c \<and> c \<le> 70 then Some (c - 55)
      else None)"

definition hex4 :: "nat \<Rightarrow> nat \<Rightarrow> nat \<Rightarrow> nat \<Rightarrow> nat option" where
  "hex4 a b c d =
     (case (hex_val a, hex_val b, hex_val c, hex_val d) of
        (Some x, Some y, Some z, Some u) \<Rightarrow> Some (((x * 16 + y) * 16 + z) * 16 + u)
      | _ \<Rightarrow> None)"

definition unescape :: "nat \<Rightarrow> nat option" where
  "unescape e =
     (if e = 34 then Some 34
      else if e = 92 then Some 92
      else if e = 47 then Some 47
      else if e = 98 then Some 8
      else if e = 102 then Some 12
      else if e = 110 then Some 10
      else if e = 114 then Some 13
      else if e = 116 then Some 9
      else None)"

definition cons_char :: "nat \<Rightarrow> (pystr \<times> pystr) option \<Rightarrow> (pystr \<times> pystr) option" where
  "cons_char c r = map_option (\<lambda>(s, rest). (c # s, rest)) r"

text \<open>
  \<open>scanstring\<close> reads a string from after its opening quote, and returns it with the
  text after the closing quote. A \<open>\u\<close> escape of a high surrogate followed by one
  of a low surrogate is one code point.
\<close>

fun scanstring :: "pystr \<Rightarrow> (pystr \<times> pystr) option" where
  "scanstring [] = None"
| "scanstring (c # cs) =
     (if c = 34 then Some ([], cs)
      else if c = 92 then
        (case cs of
           [] \<Rightarrow> None
         | e # r \<Rightarrow>
             if e = 117 then
               (case r of
                  h1 # h2 # h3 # h4 # r1 \<Rightarrow>
                    (case hex4 h1 h2 h3 h4 of
                       None \<Rightarrow> None
                     | Some u \<Rightarrow>
                         if 55296 \<le> u \<and> u < 56320 then
                           (case r1 of
                              b # v # g1 # g2 # g3 # g4 # r2 \<Rightarrow>
                                if b = 92 \<and> v = 117 then
                                  (case hex4 g1 g2 g3 g4 of
                                     None \<Rightarrow> None
                                   | Some u2 \<Rightarrow>
                                       if 56320 \<le> u2 \<and> u2 < 57344
                                       then cons_char (65536 + (u - 55296) * 1024 + (u2 - 56320))
                                              (scanstring r2)
                                       else cons_char u (scanstring r1))
                                else cons_char u (scanstring r1)
                            | _ \<Rightarrow> cons_char u (scanstring r1))
                         else cons_char u (scanstring r1))
                | _ \<Rightarrow> None)
             else (case unescape e of
                     None \<Rightarrow> None
                   | Some ch \<Rightarrow> cons_char ch (scanstring r)))
      else if c < 32 then None
      else cons_char c (scanstring cs))"

definition digits_val :: "pystr \<Rightarrow> nat" where
  "digits_val ds = foldl (\<lambda>acc d. acc * 10 + (d - 48)) 0 ds"

text \<open>
  A number is \<open>-?(0|[1-9][0-9]*)(\.[0-9]+)?([eE][-+]?[0-9]+)?\<close>, matched greedily;
  \<open>scan_int\<close>, \<open>scan_frac\<close> and \<open>scan_exp\<close> return the matched text and the rest.
\<close>

definition scan_int :: "pystr \<Rightarrow> (pystr \<times> pystr) option" where
  "scan_int s =
     (case s of
        [] \<Rightarrow> None
      | d # r \<Rightarrow>
          if d = 48 then Some ([d], r)
          else if 49 \<le> d \<and> d \<le> 57 then Some (d # takeWhile is_digit r, dropWhile is_digit r)
          else None)"

definition scan_frac :: "pystr \<Rightarrow> pystr \<times> pystr" where
  "scan_frac s =
     (case s of
        p # d # r \<Rightarrow>
          if p = 46 \<and> is_digit d then (p # d # takeWhile is_digit r, dropWhile is_digit r)
          else ([], s)
      | _ \<Rightarrow> ([], s))"

definition scan_exp :: "pystr \<Rightarrow> pystr \<times> pystr" where
  "scan_exp s =
     (case s of
        e # r \<Rightarrow>
          if e = 101 \<or> e = 69 then
            (case r of
               g # r1 \<Rightarrow>
                 if is_digit g then (e # g # takeWhile is_digit r1, dropWhile is_digit r1)
                 else if g = 43 \<or> g = 45 then
                   (case r1 of
                      d # r2 \<Rightarrow>
                        if is_digit d
                        then (e # g # d # takeWhile is_digit r2, dropWhile is_digit r2)
                        else ([], s)
                    | _ \<Rightarrow> ([], s))
                 else ([], s)
             | _ \<Rightarrow> ([], s))
          else ([], s)
      | _ \<Rightarrow> ([], s))"

definition scan_number :: "pystr \<Rightarrow> (jval \<times> pystr) option" where
  "scan_number s =
     (let (sign, s1) = (case s of c # r \<Rightarrow> if c = 45 then ([c], r) else ([], s) | _ \<Rightarrow> ([], s))
      in case scan_int s1 of
           None \<Rightarrow> None
         | Some (ds, r) \<Rightarrow>
             (let (frac, r1) = scan_frac r; (ex, r2) = scan_exp r1
              in if frac = [] \<and> ex = []
                 then Some (JInt (if sign = [] then int (digits_val ds) else - int (digits_val ds)), r2)
                 else Some (JFloat (sign @ ds @ frac @ ex), r2)))"

definition literal :: "string \<Rightarrow> pystr \<Rightarrow> pystr option" where
  "literal p s = (if take (length p) s = ustr p then Some (drop (length p) s) else None)"

definition scan_atom :: "pystr \<Rightarrow> (jval \<times> pystr) option" where
  "scan_atom s =
     (case literal ''null'' s of Some r \<Rightarrow> Some (JNull, r) | None \<Rightarrow>
      case literal ''true'' s of Some r \<Rightarrow> Some (JBool True, r) | None \<Rightarrow>
      case literal ''false'' s of Some r \<Rightarrow> Some (JBool False, r) | None \<Rightarrow>
      case scan_number s of Some vr \<Rightarrow> Some vr | None \<Rightarrow>
      case literal ''NaN'' s of Some r \<Rightarrow> Some (JFloat (ustr ''NaN''), r) | None \<Rightarrow>
      case literal ''Infinity'' s of Some r \<Rightarrow> Some (JFloat (ustr ''Infinity''), r) | None \<Rightarrow>
      case literal ''-Infinity'' s of Some r \<Rightarrow> Some (JFloat (ustr ''-Infinity''), r) | None \<Rightarrow>
      None)"

text \<open>
  The scanner. The recursion of the decoder through arrays and objects is counted by a
  fuel argument; \<open>json_loads\<close> gives it more than any text can use.
  \<open>parse_array\<close> starts at an element, \<open>parse_object\<close> after the opening quote of
  a key.
\<close>

fun parse_value :: "nat \<Rightarrow> pystr \<Rightarrow> (jval \<times> pystr) presult"
  and parse_array :: "nat \<Rightarrow> jval list \<Rightarrow> pystr \<Rightarrow> (jval \<times> pystr) presult"
  and parse_object :: "nat \<Rightarrow> (pystr \<times> jval) list \<Rightarrow> pystr \<Rightarrow> (jval \<times> pystr) presult"
where
  "parse_value 0 s = OutOfFuel"
| "parse_value (Suc n) [] = Bad"
| "parse_value (Suc n) (c # cs) =
     (if c = 34 then
        (case scanstring cs of None \<Rightarrow> Bad | Some (str, r) \<Rightarrow> Ok (JStr str, r))
      else if c = 123 then
        (case skip_ws cs of
           [] \<Rightarrow> Bad
         | d # r \<Rightarrow>
             if d = 125 then Ok (JObj [], r)
             else if d = 34 then parse_object n [] r
             else Bad)
      else if c = 91 then
        (case skip_ws cs of
           [] \<Rightarrow> Bad
         | d # r \<Rightarrow> if d = 93 then Ok (JArr [], r) else parse_array n [] (d # r))
      else (case scan_atom (c # cs) of None \<Rightarrow> Bad | Some vr \<Rightarrow> Ok vr))"
| "parse_array 0 acc s = OutOfFuel"
| "parse_array (Suc n) acc s =
     (case parse_value n s of
        Ok (v, r) \<Rightarrow>
          (case skip_ws r of
             [] \<Rightarrow> Bad
           | d # r1 \<Rightarrow>
               if d = 93 then Ok (JArr (acc @ [v]), r1)
               else if d = 44 then parse_array n (acc @ [v]) (skip_ws r1)
               else Bad)
      | Bad \<Rightarrow> Bad
      | OutOfFuel \<Rightarrow> OutOfFuel)"
| "parse_object 0 acc s = OutOfFuel"
| "parse_object (Suc n) acc s =
     (case scanstring s of
        None \<Rightarrow> Bad
      | Some (key, r) \<Rightarrow>
          (case skip_ws r of
             [] \<Rightarrow> Bad
           | d # r1 \<Rightarrow>
               if d \<noteq> 58 then Bad
               else
                 (case parse_value n (skip_ws r1) of
                    Ok (v, r2) \<Rightarrow>
                      (case skip_ws r2 of
                         [] \<Rightarrow> Bad
                       | d2 # r3 \<Rightarrow>
                           if d2 = 125 then Ok (JObj (dict_set key v acc), r3)
                           else if d2 = 44 then
                             (case skip_ws r3 of
                                [] \<Rightarrow> Bad
                              | d3 # r4 \<Rightarrow>
                                  if d3 = 34 then parse_object n (dict_set key v acc) r4
                                  else Bad)
                           else Bad)
                  | Bad \<Rightarrow> Bad
                  | OutOfFuel \<Rightarrow> OutOfFuel)))"

text \<open>
  \<open>json.loads\<close>: a text that starts with a byte order mark is refused; the value may
  have whitespace before and after it and nothing else. \<open>None\<close> is
  \<open>JSONDecodeError\<close>.
\<close>

definition json_loads :: "pystr \<Rightarrow> jval option" where
  "json_loads s =
     (if take 1 s = [65279] then None
      else case parse_value (2 * length s + 2) (skip_ws s) of
             Ok (v, r) \<Rightarrow> if skip_ws r = [] then Some v else None
           | Bad \<Rightarrow> None
           | OutOfFuel \<Rightarrow> None)"

text \<open>The collections of the data model among the values of JSON.\<close>

fun pyval_of :: "jval \<Rightarrow> pyval option" where
  "pyval_of (JInt i) = Some (PyInt i)"
| "pyval_of (JStr s) = Some (PyStr s)"
| "pyval_of v = None"

fun quote_of :: "jval \<Rightarrow> quote option" where
  "quote_of (JObj ps) = those (map (\<lambda>(k, v). map_option (Pair k) (pyval_of v)) ps)"
| "quote_of v = None"

fun quotes_of :: "jval \<Rightarrow> quote list option" where
  "quotes_of (JArr vs) = those (map quote_of vs)"
| "quotes_of v = None"

text \<open>
  \<open>load_quotes\<close>. The \<open>except\<close> clause catches \<open>JSONDecodeError\<close> only.
\<close>

definition load_quotes :: "world \<Rightarrow> (exn + quote list) \<times> world" where
  "load_quotes w =
     (case data_file w of
        None \<Rightarrow>
          (case save_quotes [] w of
             (Inl e, w') \<Rightarrow> (Inl e, w')
           | (Inr u, w') \<Rightarrow> (Inr [], w'))
      | Some bytes \<Rightarrow>
          (case utf8_decode bytes of
             None \<Rightarrow> (Inl UnicodeDecodeError, w)
           | Some txt \<Rightarrow>
               (case json_loads txt of
                  None \<Rightarrow> (Inr [], w)
                | Some v \<Rightarrow>
                    (case quotes_of v of
                       None \<Rightarrow> (Inl NotACollection, w)
                     | Some quotes \<Rightarrow> (Inr quotes, w)))))"

section \<open>The commands\<close>

subsection \<open>\<open>play\<close>\<close>

definition no_quotes_msg :: pystr where
  "no_quotes_msg = [10060] @ ustr '' No quotes found in the database. Add some with the ''
     @ [39] @ ustr ''add'' @ [39] @ ustr '' command first!''"

definition welcome_msg :: pystr where
  "welcome_msg = ustr ''--- '' @ [127963, 65039] @ ustr '' Welcome to the Latin Quote Quiz! ---''"

definition game_over_msg :: pystr where
  "game_over_msg = [10] @ ustr ''--- '' @ [127942] @ ustr '' Game Over! ---''"

definition final_score_msg :: "int \<Rightarrow> int \<Rightarrow> pystr" where
  "final_score_msg score num_rounds =
     ustr ''Your final score: '' @ str_int score @ ustr ''/'' @ str_int num_rounds"

definition round_msg :: "nat \<Rightarrow> int \<Rightarrow> pystr" where
  "round_msg i num_rounds =
     [10] @ ustr ''--- Round '' @ str_int (int i + 1) @ ustr '' of '' @ str_int num_rounds
       @ ustr '' ---''"

definition answer_prompt :: pystr where
  "answer_prompt = [10] @ ustr ''Your answer: ''"

definition game_modes :: "pystr list" where
  "game_modes = [ustr ''translate'', ustr ''author'', ustr ''work'']"

text \<open>
  The question and the expected answer of a round, by the chosen mode. Each reads
  \<open>quote['latin_text']\<close> first and the answer's field second.
\<close>

definition question_answer :: "pystr \<Rightarrow> quote \<Rightarrow> exn + (pystr \<times> pyval)" where
  "question_answer chosen_mode quote =
     (if chosen_mode = ustr ''translate'' then
        (case getitem quote (ustr ''latin_text'') of
           Inl e \<Rightarrow> Inl e
         | Inr t \<Rightarrow>
             (case getitem quote (ustr ''english_translation'') of
                Inl e \<Rightarrow> Inl e
              | Inr answer \<Rightarrow>
                  Inr (ustr ''Translate this quote to English:'' @ [10, 10] @ ustr ''> '' @ py_str t,
                       answer)))
      else if chosen_mode = ustr ''author'' then
        (case getitem quote (ustr ''latin_text'') of
           Inl e \<Rightarrow> Inl e
         | Inr t \<Rightarrow>
             (case getitem quote (ustr ''author'') of
                Inl e \<Rightarrow> Inl e
              | Inr answer \<Rightarrow>
                  Inr (ustr ''Who is the author of this quote?'' @ [10, 10] @ ustr ''> '' @ py_str t,
                       answer)))
      else
        (case getitem quote (ustr ''latin_text'') of
           Inl e \<Rightarrow> Inl e
         | Inr t \<Rightarrow>
             (case getitem quote (ustr ''work'') of
                Inl e \<Rightarrow> Inl e
              | Inr answer \<Rightarrow>
                  Inr (ustr ''What work is this quote from?'' @ [10, 10] @ ustr ''> '' @ py_str t,
                       answer))))"

text \<open>
  One pass of the loop body, from the score before to the score after. An answer that
  is no string has no \<open>strip\<close>: \<open>AttributeError\<close>.
\<close>

definition play_round :: "int \<Rightarrow> nat \<Rightarrow> quote \<Rightarrow> int \<Rightarrow> world \<Rightarrow> (exn + int) \<times> world" where
  "play_round num_rounds i quote score w =
     (let (chosen_mode, w1) = random_choice game_modes (py_print (round_msg i num_rounds) w)
      in case question_answer chosen_mode quote of
           Inl e \<Rightarrow> (Inl e, w1)
         | Inr (question, answer) \<Rightarrow>
             (case py_input answer_prompt (py_print question w1) of
                (Inl e, w2) \<Rightarrow> (Inl e, w2)
              | (Inr user_input, w2) \<Rightarrow>
                  (case answer of
                     PyInt n \<Rightarrow> (Inl AttributeError, w2)
                   | PyStr a \<Rightarrow>
                       if str_lower w (py_strip user_input) = str_lower w (py_strip a)
                       then (Inr (score + 1),
                             py_print ([9989] @ ustr '' Correct! The answer is: '' @ a) w2)
                       else (Inr score,
                             py_print ([10060] @ ustr '' Incorrect. The correct answer was: '' @ a)
                               w2))))"

fun play_loop :: "int \<Rightarrow> nat \<Rightarrow> quote list \<Rightarrow> int \<Rightarrow> world \<Rightarrow> (exn + int) \<times> world" where
  "play_loop num_rounds i [] score w = (Inr score, w)"
| "play_loop num_rounds i (quote # rest) score w =
     (case play_round num_rounds i quote score w of
        (Inl e, w') \<Rightarrow> (Inl e, w')
      | (Inr score', w') \<Rightarrow> play_loop num_rounds (Suc i) rest score' w')"

definition play :: "int \<Rightarrow> world \<Rightarrow> (exn + unit) \<times> world" where
  "play rounds w =
     (case load_quotes w of
        (Inl e, w1) \<Rightarrow> (Inl e, w1)
      | (Inr quotes, w1) \<Rightarrow>
          if quotes = [] then (Inl Exit, py_print no_quotes_msg w1)
          else
            (let num_rounds = min rounds (int (length quotes))
             in case random_sample quotes num_rounds (py_print welcome_msg w1) of
                  (Inl e, w2) \<Rightarrow> (Inl e, w2)
                | (Inr game_quotes, w2) \<Rightarrow>
                    (case play_loop num_rounds 0 game_quotes 0 w2 of
                       (Inl e, w3) \<Rightarrow> (Inl e, w3)
                     | (Inr score, w3) \<Rightarrow>
                         (Inr (), py_print (final_score_msg score num_rounds)
                                    (py_print game_over_msg w3)))))"

subsection \<open>\<open>add\<close>\<close>

text \<open>
  The five answers to \<open>typer.prompt\<close> are the arguments; the dialogue that obtains
  them is the framework's and is not modelled. \<open>new_quote["id"] = \<dots>\<close> adds a sixth
  key after the five.
\<close>

definition add :: "pystr \<Rightarrow> pystr \<Rightarrow> pystr \<Rightarrow> pystr \<Rightarrow> pystr \<Rightarrow> world \<Rightarrow> (exn + unit) \<times> world" where
  "add latin_text english_translation author work notes w =
     (let w0 = py_print (ustr ''Please provide the following details (press Enter to skip a field).'')
                 (py_print (ustr ''--- '' @ [9997, 65039] @ ustr '' Add a New Latin Quote ---'') w);
          new_quote = [(ustr ''latin_text'', PyStr latin_text),
                       (ustr ''english_translation'', PyStr english_translation),
                       (ustr ''author'', PyStr author),
                       (ustr ''work'', PyStr work),
                       (ustr ''notes'', PyStr notes)]
      in case load_quotes w0 of
           (Inl e, w1) \<Rightarrow> (Inl e, w1)
         | (Inr quotes, w1) \<Rightarrow>
             (case get_next_id quotes of
                Inl e \<Rightarrow> (Inl e, w1)
              | Inr new_id \<Rightarrow>
                  (case save_quotes (quotes @ [new_quote @ [(ustr ''id'', new_id)]]) w1 of
                     (Inl e, w2) \<Rightarrow> (Inl e, w2)
                   | (Inr u, w2) \<Rightarrow>
                       (Inr (), py_print ([10, 10024] @ ustr '' Quote added successfully with ID: ''
                                           @ py_str new_id) w2))))"

subsection \<open>\<open>list\<close>\<close>

definition get_or :: "quote \<Rightarrow> pystr \<Rightarrow> pyval \<Rightarrow> pyval" where
  "get_or q k d = (case dict_get q k of None \<Rightarrow> d | Some v \<Rightarrow> v)"

definition list_quote :: "quote \<Rightarrow> world \<Rightarrow> (exn + unit) \<times> world" where
  "list_quote quote w =
     (case getitem quote (ustr ''id'') of
        Inl e \<Rightarrow> (Inl e, w)
      | Inr i \<Rightarrow>
          (let w1 = py_print ([10] @ ustr ''ID: '' @ py_str i) w;
               w2 = py_print (ustr ''  Latin: ''
                      @ py_str (get_or quote (ustr ''latin_text'') (PyStr (ustr ''N/A'')))) w1;
               w3 = py_print (ustr ''  English: ''
                      @ py_str (get_or quote (ustr ''english_translation'') (PyStr (ustr ''N/A'')))) w2;
               w4 = py_print (ustr ''  Author: ''
                      @ py_str (get_or quote (ustr ''author'') (PyStr (ustr ''N/A'')))) w3;
               w5 = py_print (ustr ''  Work: ''
                      @ py_str (get_or quote (ustr ''work'') (PyStr (ustr ''N/A'')))) w4
           in case dict_get quote (ustr ''notes'') of
                None \<Rightarrow> (Inr (), w5)
              | Some v \<Rightarrow>
                  if truthy (Some v) then (Inr (), py_print (ustr ''  Notes: '' @ py_str v) w5)
                  else (Inr (), w5)))"

fun list_loop :: "quote list \<Rightarrow> world \<Rightarrow> (exn + unit) \<times> world" where
  "list_loop [] w = (Inr (), w)"
| "list_loop (quote # rest) w =
     (case list_quote quote w of
        (Inl e, w') \<Rightarrow> (Inl e, w')
      | (Inr u, w') \<Rightarrow> list_loop rest w')"

definition list_quotes :: "world \<Rightarrow> (exn + unit) \<times> world" where
  "list_quotes w =
     (case load_quotes w of
        (Inl e, w1) \<Rightarrow> (Inl e, w1)
      | (Inr quotes, w1) \<Rightarrow>
          if quotes = [] then (Inr (), py_print ([128218] @ ustr '' The database is empty.'') w1)
          else
            (case list_loop quotes
                    (py_print (ustr ''--- '' @ [128214] @ ustr '' All Quotes in Database ---'') w1) of
               (Inl e, w2) \<Rightarrow> (Inl e, w2)
             | (Inr u, w2) \<Rightarrow> (Inr (), py_print (ustr ''------------------------------'') w2)))"

subsection \<open>The application\<close>

text \<open>
  Typer runs a command and ends the process: with code 0 when the command returns or
  raises \<open>typer.Exit()\<close>, with a traceback when another exception leaves it.
\<close>

datatype status = ExitCode nat | Traceback exn

definition app :: "(world \<Rightarrow> (exn + unit) \<times> world) \<Rightarrow> world \<Rightarrow> status \<times> world" where
  "app command w =
     (case command w of
        (Inr u, w') \<Rightarrow> (ExitCode 0, w')
      | (Inl Exit, w') \<Rightarrow> (ExitCode 0, w')
      | (Inl e, w') \<Rightarrow> (Traceback e, w'))"

subsection \<open>Reading a session off the console\<close>

text \<open>
  A question is what was printed right before a prompt for input: \<open>asked\<close> lists the
  questions of an output. \<open>question_of\<close> is the question of a quote in a mode.
  \<open>quiz_ready\<close> says that a quote has the fields a round may read: its Latin text, and
  a string for each of translation, author and work.
\<close>

fun asked :: "event list \<Rightarrow> pystr list" where
  "asked (Print q # Prompt p # out) = q # asked out"
| "asked (e # out) = asked out"
| "asked [] = []"

definition question_of :: "pystr \<Rightarrow> quote \<Rightarrow> pystr" where
  "question_of chosen_mode quote =
     (case question_answer chosen_mode quote of Inl e \<Rightarrow> [] | Inr (question, answer) \<Rightarrow> question)"

fun is_str :: "pyval option \<Rightarrow> bool" where
  "is_str (Some (PyStr s)) = True"
| "is_str v = False"

definition quiz_ready :: "quote \<Rightarrow> bool" where
  "quiz_ready q =
     (dict_get q (ustr ''latin_text'') \<noteq> None
      \<and> is_str (dict_get q (ustr ''english_translation''))
      \<and> is_str (dict_get q (ustr ''author''))
      \<and> is_str (dict_get q (ustr ''work'')))"

subsection \<open>What \<open>list\<close> is to print\<close>

text \<open>
  The lines for one quote as the specification words them: the id, then Latin,
  English, author and work with \<open>N/A\<close> for a missing field, then the notes unless
  they are missing or empty (an empty string; the integer 0 counts as empty too).
\<close>

definition shown :: "quote \<Rightarrow> pystr \<Rightarrow> pystr" where
  "shown q k = (case map_of q k of None \<Rightarrow> ustr ''N/A'' | Some v \<Rightarrow> py_str v)"

definition listing :: "quote \<Rightarrow> event list" where
  "listing q =
     [Print ([10] @ ustr ''ID: '' @ shown q (ustr ''id'')),
      Print (ustr ''  Latin: '' @ shown q (ustr ''latin_text'')),
      Print (ustr ''  English: '' @ shown q (ustr ''english_translation'')),
      Print (ustr ''  Author: '' @ shown q (ustr ''author'')),
      Print (ustr ''  Work: '' @ shown q (ustr ''work''))]
     @ (case map_of q (ustr ''notes'') of
          None \<Rightarrow> []
        | Some v \<Rightarrow> if v = PyStr [] \<or> v = PyInt 0 then []
                    else [Print (ustr ''  Notes: '' @ py_str v)])"

subsection \<open>Collections that a file can hold\<close>

text \<open>
  UTF-8 encodes the Unicode scalar values: the code points up to \<open>0x10FFFF\<close> outside
  the surrogate range. A collection is well formed when every string in it, key or
  value, consists of scalar values, every integer has at most 4300 decimal digits
  (beyond that, interpreters since Python 3.11 refuse by default to convert between
  \<open>int\<close> and \<open>str\<close>), and no quote has a key twice (no \<open>dict\<close> has).
  \<open>jval_of\<close> and \<open>jobj\<close> are the JSON values of a field and of a quote.
\<close>

definition is_scalar :: "nat \<Rightarrow> bool" where
  "is_scalar c = (c < 1114112 \<and> \<not> (55296 \<le> c \<and> c < 57344))"

definition text_ok :: "pystr \<Rightarrow> bool" where
  "text_ok s = list_all is_scalar s"






subsection \<open>Example files\<close>

definition example_file :: bytes where
  \<open>example_file = ustr ''[{"id":1,"latin_text":"Veni","english_translation":"I came","author":"Caesar","work":"BG","notes":""}]''\<close>

definition example_quotes :: "quote list" where
  "example_quotes =
     [[(ustr ''id'', PyInt 1),
       (ustr ''latin_text'', PyStr (ustr ''Veni'')),
       (ustr ''english_translation'', PyStr (ustr ''I came'')),
       (ustr ''author'', PyStr (ustr ''Caesar'')),
       (ustr ''work'', PyStr (ustr ''BG'')),
       (ustr ''notes'', PyStr [])]]"

text \<open>
  A function for the examples: it lowers the letters A to Z and the capital vowels
  with a macron, as \<open>str.lower\<close> does, and stands for \<open>str.lower\<close> on the strings
  of the examples only.
\<close>

definition example_lower :: "pystr \<Rightarrow> pystr" where
  "example_lower s =
     map (\<lambda>c. if 65 \<le> c \<and> c \<le> 90 then c + 32
              else if c = 256 \<or> c = 274 \<or> c = 298 \<or> c = 332 \<or> c = 362 then c + 1
              else c) s"

definition example_world :: "pystr list \<Rightarrow> world" where
  "example_world lines =
     \<lparr>data_file = Some example_file, stdin = lines, stdout = [], rng = (\<lambda>i. i),
      str_lower = example_lower\<rparr>"

definition no_id_file :: bytes where
  \<open>no_id_file = ustr ''[{"work":"BG"}]''\<close>

definition no_id_world :: world where
  "no_id_world = \<lparr>data_file = Some no_id_file, stdin = [], stdout = [], rng = (\<lambda>i. i),
     str_lower = example_lower\<rparr>"






section \<open>Properties of the store\<close>

subsection \<open>The next id\<close>

lemma max_ids_ints:
  "map (\<lambda>q. getitem q (ustr ''id'')) qs = map (\<lambda>n. Inr (PyInt n)) ns
   \<Longrightarrow> max_ids (PyInt m) qs = Inr (PyInt (Max (set (m # ns))))"
proof (induction qs arbitrary: m ns)
  case Nil
  then show ?case by simp
next
  case (Cons q qs)
  then obtain n ns' where ns: "ns = n # ns'" and q: "getitem q (ustr ''id'') = Inr (PyInt n)"
    and rest: "map (\<lambda>q. getitem q (ustr ''id'')) qs = map (\<lambda>n. Inr (PyInt n)) ns'"
    by (cases ns) auto
  have "max_ids (PyInt m) (q # qs) = max_ids (PyInt (max m n)) qs"
    using q by (simp add: max_def)
  also have "\<dots> = Inr (PyInt (Max (set (max m n # ns'))))"
    using Cons.IH [OF rest] .
  also have "Max (set (max m n # ns')) = Max (set (m # ns))"
    unfolding ns by (cases "ns' = []") (simp_all add: max.assoc)
  finally show ?case .
qed

text \<open>
  C3. \<open>get_next_id\<close> returns 1 for the empty collection; for a non-empty collection
  whose ids are the integers \<open>ns\<close> it returns their maximum plus 1; on the ids 3 and 7
  it returns 8.
\<close>

theorem get_next_id_max:
  "get_next_id [] = Inr (PyInt 1)
   \<and> (quotes \<noteq> [] \<and> map (\<lambda>q. getitem q (ustr ''id'')) quotes = map (\<lambda>n. Inr (PyInt n)) ns
        \<longrightarrow> get_next_id quotes = Inr (PyInt (Max (set ns) + 1)))
   \<and> get_next_id [[(ustr ''id'', PyInt 3)], [(ustr ''id'', PyInt 7)]] = Inr (PyInt 8)"
proof (intro conjI impI)
  show "get_next_id [] = Inr (PyInt 1)"
    by (simp add: get_next_id_def)
next
  assume a: "quotes \<noteq> [] \<and> map (\<lambda>q. getitem q (ustr ''id'')) quotes = map (\<lambda>n. Inr (PyInt n)) ns"
  then obtain q qs n ns' where quotes: "quotes = q # qs" and ns: "ns = n # ns'"
    and q: "getitem q (ustr ''id'') = Inr (PyInt n)"
    and rest: "map (\<lambda>q. getitem q (ustr ''id'')) qs = map (\<lambda>n. Inr (PyInt n)) ns'"
    by (cases quotes; cases ns) auto
  show "get_next_id quotes = Inr (PyInt (Max (set ns) + 1))"
    unfolding quotes ns using q max_ids_ints [OF rest, of n]
    by (simp add: get_next_id_def)
next
  show "get_next_id [[(ustr ''id'', PyInt 3)], [(ustr ''id'', PyInt 7)]] = Inr (PyInt 8)"
    by (simp add: get_next_id_def getitem_def)
qed

theorem get_next_id_max_witness:
  "get_next_id [[(ustr ''id'', PyInt 5)], [(ustr ''author'', PyStr (ustr ''Cato'')), (ustr ''id'', PyInt 2)]]
     = Inr (PyInt 6)"
  using get_next_id_max [of "[[(ustr ''id'', PyInt 5)], [(ustr ''author'', PyStr (ustr ''Cato'')), (ustr ''id'', PyInt 2)]]" "[5, 2]"]
  by (simp add: getitem_def ustr_def)

section \<open>Evaluating the decoder\<close>

lemma parse_value_numeral: "parse_value (numeral k) s = parse_value (Suc (pred_numeral k)) s"
  by (simp add: numeral_eq_Suc)

lemma parse_array_numeral: "parse_array (numeral k) a s = parse_array (Suc (pred_numeral k)) a s"
  by (simp add: numeral_eq_Suc)

lemma parse_object_numeral: "parse_object (numeral k) a s = parse_object (Suc (pred_numeral k)) a s"
  by (simp add: numeral_eq_Suc)

lemmas json_eval = parse_value_numeral parse_array_numeral parse_object_numeral
  json_loads_def skip_ws_def is_ws_def scan_atom_def literal_def ustr_def
  scan_number_def scan_int_def scan_frac_def scan_exp_def is_digit_def digits_val_def cons_char_def
  hex4_def hex_val_def unescape_def

section \<open>The console\<close>

lemma py_print_fields [simp]:
  "stdout (py_print s w) = stdout w @ [Print s]"
  "stdin (py_print s w) = stdin w"
  "data_file (py_print s w) = data_file w"
  "rng (py_print s w) = rng w"
  "str_lower (py_print s w) = str_lower w"
  by (simp_all add: py_print_def)

lemma save_quotes_console:
  "save_quotes qs w = (r, w') \<Longrightarrow> stdout w' = stdout w \<and> stdin w' = stdin w \<and> rng w' = rng w"
  by (auto simp: save_quotes_def split: prod.splits)

lemma load_quotes_console:
  "load_quotes w = (r, w') \<Longrightarrow> stdout w' = stdout w \<and> stdin w' = stdin w \<and> rng w' = rng w"
  unfolding load_quotes_def
  by (auto split: option.splits prod.splits sum.splits dest: save_quotes_console)

lemma load_quotes_absent:
  "data_file w = None \<Longrightarrow> load_quotes w = (Inr [], w\<lparr>data_file := Some (ustr ''[]'')\<rparr>)"
  by (simp add: load_quotes_def save_quotes_def iterencode_def ustr_def utf8_encode_char_def)

lemma load_quotes_present:
  "data_file w = Some bs \<Longrightarrow> utf8_decode bs = Some t \<Longrightarrow> json_loads t = Some v
   \<Longrightarrow> quotes_of v = Some qs \<Longrightarrow> load_quotes w = (Inr qs, w)"
  by (simp add: load_quotes_def)

lemma load_quotes_py_print:
  "load_quotes (py_print s w) = (case load_quotes w of (r, w') \<Rightarrow> (r, py_print s w'))"
  by (simp add: load_quotes_def save_quotes_def py_print_def
      split: option.splits prod.splits sum.splits)

lemma example_world_fields [simp]:
  "data_file (example_world lines) = Some example_file"
  "stdin (example_world lines) = lines"
  "stdout (example_world lines) = []"
  "rng (example_world lines) = (\<lambda>i. i)"
  "str_lower (example_world lines) = example_lower"
  by (simp_all add: example_world_def)

lemma load_example: "load_quotes (example_world lines) = (Inr example_quotes, example_world lines)"
proof (rule load_quotes_present)
  show "data_file (example_world lines) = Some example_file"
    by simp
  show "utf8_decode example_file = Some example_file"
    by (simp add: example_file_def ustr_def)
  show "json_loads example_file
          = Some (JArr [JObj [(ustr ''id'', JInt 1),
                (ustr ''latin_text'', JStr (ustr ''Veni'')),
                (ustr ''english_translation'', JStr (ustr ''I came'')),
                (ustr ''author'', JStr (ustr ''Caesar'')),
                (ustr ''work'', JStr (ustr ''BG'')),
                (ustr ''notes'', JStr [])]])"
    by (simp add: example_file_def json_eval del: Suc_numeral)
  show "quotes_of (JArr [JObj [(ustr ''id'', JInt 1),
                (ustr ''latin_text'', JStr (ustr ''Veni'')),
                (ustr ''english_translation'', JStr (ustr ''I came'')),
                (ustr ''author'', JStr (ustr ''Caesar'')),
                (ustr ''work'', JStr (ustr ''BG'')),
                (ustr ''notes'', JStr [])]]) = Some example_quotes"
    by (simp add: example_quotes_def)
qed

lemma example_quotes_ready: "\<forall>q\<in>set example_quotes. quiz_ready q"
  by (simp add: example_quotes_def quiz_ready_def dict_get_def ustr_def)

lemma load_no_id:
  "load_quotes no_id_world = (Inr [[(ustr ''work'', PyStr (ustr ''BG''))]], no_id_world)"
proof (rule load_quotes_present)
  show "data_file no_id_world = Some no_id_file"
    by (simp add: no_id_world_def)
  show "utf8_decode no_id_file = Some no_id_file"
    by (simp add: no_id_file_def ustr_def)
  show "json_loads no_id_file = Some (JArr [JObj [(ustr ''work'', JStr (ustr ''BG''))]])"
    by (simp add: no_id_file_def json_eval del: Suc_numeral)
  show "quotes_of (JArr [JObj [(ustr ''work'', JStr (ustr ''BG''))]])
          = Some [[(ustr ''work'', PyStr (ustr ''BG''))]]"
    by simp
qed

section \<open>What load returns\<close>

lemma json_loads_empty: "json_loads [] = None"
  by (simp add: json_loads_def skip_ws_def)

lemma load_quotes_invalid_json:
  "data_file w = Some bs \<Longrightarrow> utf8_decode bs = Some t \<Longrightarrow> json_loads t = None
   \<Longrightarrow> load_quotes w = (Inr [], w)"
  by (simp add: load_quotes_def)

lemma load_quotes_empty_file: "data_file w = Some [] \<Longrightarrow> load_quotes w = (Inr [], w)"
  by (simp add: load_quotes_def json_loads_empty)


section \<open>play\<close>

text \<open>
  C8. When the collection is empty, \<open>play\<close> prints the message that there are no
  quotes and raises \<open>typer.Exit\<close>: the process ends with code 0, nothing else is
  printed, no question is asked and no line of input is read.
\<close>

theorem play_empty_collection:
  assumes "load_quotes w = (Inr [], w1)"
  shows "play rounds w = (Inl Exit, py_print no_quotes_msg w1)
       \<and> app (play rounds) w = (ExitCode 0, py_print no_quotes_msg w1)
       \<and> stdout (py_print no_quotes_msg w1) = stdout w @ [Print no_quotes_msg]
       \<and> stdin (py_print no_quotes_msg w1) = stdin w"
proof -
  have p: "play rounds w = (Inl Exit, py_print no_quotes_msg w1)"
    using assms by (simp add: play_def)
  have "app (play rounds) w = (ExitCode 0, py_print no_quotes_msg w1)"
    by (simp add: app_def p)
  with p load_quotes_console [OF assms] show ?thesis by simp
qed

theorem play_empty_collection_witness:
  "fst (play 5 \<lparr>data_file = None, stdin = [ustr ''Rome''], stdout = [], rng = (\<lambda>i. 0), str_lower = example_lower\<rparr>) = Inl Exit
   \<and> fst (app (play 5) \<lparr>data_file = None, stdin = [ustr ''Rome''], stdout = [], rng = (\<lambda>i. 0), str_lower = example_lower\<rparr>)
       = ExitCode 0
   \<and> stdout (snd (play 5 \<lparr>data_file = None, stdin = [ustr ''Rome''], stdout = [], rng = (\<lambda>i. 0), str_lower = example_lower\<rparr>))
       = [Print no_quotes_msg]"
  using play_empty_collection [OF load_quotes_absent,
      of "\<lparr>data_file = None, stdin = [ustr ''Rome''], stdout = [], rng = (\<lambda>i. 0), str_lower = example_lower\<rparr>" 5]
  by simp

lemma random_sample_zero: "random_sample xs 0 w = (Inr [], w)"
  by (simp add: random_sample_def)

lemma final_score_zero: "final_score_msg 0 0 = ustr ''Your final score: 0/0''"
  by (simp add: final_score_msg_def str_int_def str_nat.simps ustr_def)

text \<open>
  C10. With \<open>--rounds 0\<close> on a non-empty collection the session ends without an error:
  after the welcome line it asks nothing, reads nothing and prints the Game Over
  banner and the final score 0/0.
\<close>

theorem play_zero_rounds:
  assumes "load_quotes w = (Inr quotes, w1)" and "quotes \<noteq> []"
  shows "\<exists>w'. play 0 w = (Inr (), w') \<and> app (play 0) w = (ExitCode 0, w')
       \<and> stdout w' = stdout w @ [Print welcome_msg, Print game_over_msg,
                                  Print (ustr ''Your final score: 0/0'')]
       \<and> stdin w' = stdin w"
proof -
  let ?w' = "py_print (final_score_msg 0 0) (py_print game_over_msg (py_print welcome_msg w1))"
  have p: "play 0 w = (Inr (), ?w')"
    using assms by (simp add: play_def random_sample_zero)
  have "app (play 0) w = (ExitCode 0, ?w')"
    by (simp add: app_def p)
  with p load_quotes_console [OF assms(1)] show ?thesis
    by (simp add: final_score_zero)
qed

theorem play_zero_rounds_witness:
  "fst (play 0 (example_world [])) = Inr ()
   \<and> stdout (snd (play 0 (example_world [])))
       = [Print welcome_msg, Print game_over_msg, Print (ustr ''Your final score: 0/0'')]"
  using play_zero_rounds [OF load_example, of "[]"]
  by (auto simp: example_quotes_def)

lemma example_lower_ascii: "lowers_ascii example_lower"
proof -
  have "example_lower s = ascii_lower s" if "list_all (\<lambda>c. c < 128) s" for s
    using that by (induction s) (simp_all add: example_lower_def ascii_lower_def)
  then show ?thesis by (simp add: lowers_ascii_def)
qed

text \<open>
  C5. In a round whose expected answer is the string \<open>answer\<close> and whose input line is
  \<open>user_input\<close>, the score goes up by one if the two are equal after \<open>strip\<close> and
  \<open>lower\<close>, and stays as it is if they are not; this holds whatever \<open>str.lower\<close>
  maps. As \<open>str.lower\<close> lowers the ASCII letters, \<open>" Rome "\<close> matches \<open>"rome"\<close>.
\<close>

theorem round_scores_normalised_match:
  assumes "question_answer (game_modes ! (rng w 0 mod 3)) quote = Inr (question, PyStr answer)"
    and "stdin w = user_input # rest"
  shows "fst (play_round n i quote score w)
           = Inr (if str_lower w (py_strip user_input) = str_lower w (py_strip answer)
                  then score + 1 else score)
       \<and> (lowers_ascii (str_lower w)
            \<longrightarrow> str_lower w (py_strip (ustr '' Rome '')) = str_lower w (py_strip (ustr ''rome'')))"
proof
  show "fst (play_round n i quote score w)
           = Inr (if str_lower w (py_strip user_input) = str_lower w (py_strip answer)
                  then score + 1 else score)"
    using assms
    by (simp add: play_round_def random_choice_def randbelow_def game_modes_def py_input_def)
  have s1: "py_strip (ustr '' Rome '') = ustr ''Rome''" and s2: "py_strip (ustr ''rome'') = ustr ''rome''"
    by (simp_all add: py_strip_def isspace_def ustr_def)
  have a1: "list_all (\<lambda>c. c < 128) (ustr ''Rome'')" and a2: "list_all (\<lambda>c. c < 128) (ustr ''rome'')"
    by (simp_all add: ustr_def)
  have e: "ascii_lower (ustr ''Rome'') = ascii_lower (ustr ''rome'')"
    by (simp add: ascii_lower_def ustr_def)
  show "lowers_ascii (str_lower w)
          \<longrightarrow> str_lower w (py_strip (ustr '' Rome '')) = str_lower w (py_strip (ustr ''rome''))"
    unfolding s1 s2 using a1 a2 e by (simp add: lowers_ascii_def)
qed

theorem round_scores_normalised_match_witness:
  "fst (play_round 1 0
          [(ustr ''latin_text'', PyStr (ustr ''Carthago delenda est'')),
           (ustr ''author'', PyStr [67, 65, 84, 332])]
          0 \<lparr>data_file = None, stdin = [[32, 99, 97, 116, 333, 32]], stdout = [],
             rng = (\<lambda>i. 1), str_lower = example_lower\<rparr>) = Inr 1
   \<and> example_lower (py_strip (ustr '' Rome '')) = example_lower (py_strip (ustr ''rome''))"
  using round_scores_normalised_match [of
      "\<lparr>data_file = None, stdin = [[32, 99, 97, 116, 333, 32]], stdout = [],
         rng = (\<lambda>i. 1), str_lower = example_lower\<rparr>"
      "[(ustr ''latin_text'', PyStr (ustr ''Carthago delenda est'')),
        (ustr ''author'', PyStr [67, 65, 84, 332])]"
      "ustr ''Who is the author of this quote?'' @ [10, 10] @ ustr ''> ''
         @ ustr ''Carthago delenda est''"
      "[67, 65, 84, 332]" "[32, 99, 97, 116, 333, 32]" "[]" 1 0 0]
    example_lower_ascii
  by (simp add: question_answer_def game_modes_def getitem_def ustr_def py_strip_def isspace_def
      example_lower_def)

section \<open>Sampling\<close>

lemma sample_pool_Suc:
  "sample_pool pool n (Suc m) g
     = (pool ! (g 0 mod n)
          # fst (sample_pool (pool[g 0 mod n := pool ! (n - 1)]) (n - 1) m (\<lambda>i. g (Suc i))),
        snd (sample_pool (pool[g 0 mod n := pool ! (n - 1)]) (n - 1) m (\<lambda>i. g (Suc i))))"
  by (simp add: randbelow_def split: prod.splits)

lemma sample_pool_map:
  "m \<le> n \<Longrightarrow> n \<le> length pool \<Longrightarrow>
   sample_pool (map f pool) n m g
     = (map f (fst (sample_pool pool n m g)), snd (sample_pool pool n m g))"
proof (induction m arbitrary: pool n g)
  case 0
  show ?case by simp
next
  case (Suc m)
  let ?j = "g 0 mod n"
  from Suc.prems have n: "0 < n" by simp
  then have j: "?j < n" by simp
  have m: "m \<le> n - 1" using Suc.prems by simp
  have len: "n - 1 \<le> length (pool[?j := pool ! (n - 1)])" using Suc.prems by simp
  have upd: "(map f pool)[?j := map f pool ! (n - 1)] = map f (pool[?j := pool ! (n - 1)])"
    using Suc.prems n by (simp add: map_update)
  have "?j < length pool" using j Suc.prems(2) by linarith
  then have nth: "map f pool ! ?j = f (pool ! ?j)"
    by simp
  show ?case
    unfolding sample_pool_Suc upd nth Suc.IH [OF m len] by simp
qed

lemma sample_pool_distinct:
  "m \<le> n \<Longrightarrow> n \<le> length pool \<Longrightarrow> distinct (take n pool) \<Longrightarrow>
   distinct (fst (sample_pool pool n m g))
   \<and> set (fst (sample_pool pool n m g)) \<subseteq> set (take n pool)
   \<and> length (fst (sample_pool pool n m g)) = m"
proof (induction m arbitrary: pool n g)
  case 0
  show ?case by simp
next
  case (Suc m)
  define j where "j = g 0 mod n"
  define y where "y = pool ! (n - 1)"
  define pool' where "pool' = pool[j := y]"
  from Suc.prems have n: "0 < n" by simp
  then have j: "j < n" by (simp add: j_def)
  have m: "m \<le> n - 1" using Suc.prems by simp
  have len: "n - 1 \<le> length pool'" using Suc.prems by (simp add: pool'_def)
  have tk: "take n pool = take (n - 1) pool @ [y]"
    using Suc.prems n take_Suc_conv_app_nth [of "n - 1" pool] by (simp add: y_def)
  have d1: "distinct (take (n - 1) pool)" and y: "y \<notin> set (take (n - 1) pool)"
    using Suc.prems(3) unfolding tk by simp_all
  have tk': "take (n - 1) pool' = (take (n - 1) pool)[j := y]"
    by (simp add: pool'_def take_update_swap)
  have xin: "pool ! j \<in> set (take n pool)"
    using j Suc.prems(2) by (metis in_set_conv_nth length_take min.absorb2 nth_take)
  have dist': "distinct (take (n - 1) pool')" and sub: "set (take (n - 1) pool') \<subseteq> set (take n pool) - {pool ! j}"
  proof -
    show "distinct (take (n - 1) pool')"
      unfolding tk' using d1 y by (simp add: distinct_list_update)
    show "set (take (n - 1) pool') \<subseteq> set (take n pool) - {pool ! j}"
    proof (cases "j = n - 1")
      case True
      then have "(take (n - 1) pool)[j := y] = take (n - 1) pool"
        by (simp add: list_update_beyond)
      with y True show ?thesis unfolding tk' tk by (auto simp: y_def)
    next
      case False
      with j have jl: "j < n - 1" by simp
      then have jlen: "j < length (take (n - 1) pool)" using Suc.prems(2) by simp
      have "set ((take (n - 1) pool)[j := y]) = insert y (set (take (n - 1) pool) - {take (n - 1) pool ! j})"
        using d1 jlen by (rule set_update_distinct)
      moreover have "take (n - 1) pool ! j = pool ! j" using jl by simp
      moreover have "pool ! j \<in> set (take (n - 1) pool)"
        using jlen jl by (metis nth_mem nth_take)
      ultimately show ?thesis unfolding tk' tk using y by auto
    qed
  qed
  from Suc.IH [OF m len dist', of "\<lambda>i. g (Suc i)"]
  have ih: "distinct (fst (sample_pool pool' (n - 1) m (\<lambda>i. g (Suc i))))"
    "set (fst (sample_pool pool' (n - 1) m (\<lambda>i. g (Suc i)))) \<subseteq> set (take (n - 1) pool')"
    "length (fst (sample_pool pool' (n - 1) m (\<lambda>i. g (Suc i)))) = m"
    by simp_all
  have unfold: "fst (sample_pool pool n (Suc m) g)
      = pool ! j # fst (sample_pool pool' (n - 1) m (\<lambda>i. g (Suc i)))"
    unfolding sample_pool_Suc j_def pool'_def y_def by simp
  show ?case unfolding unfold using ih sub xin by auto
qed

lemma random_sample_indices:
  assumes "0 \<le> k" and "k \<le> int (length xs)"
  shows "\<exists>idxs w'. random_sample xs k w = (Inr (map ((!) xs) idxs), w')
           \<and> distinct idxs \<and> (\<forall>i\<in>set idxs. i < length xs) \<and> length idxs = nat k
           \<and> stdout w' = stdout w \<and> stdin w' = stdin w \<and> data_file w' = data_file w"
proof -
  let ?n = "length xs"
  let ?idxs = "fst (sample_pool [0..<?n] ?n (nat k) (rng w))"
  have k: "nat k \<le> ?n" using assms by simp
  have "sample_pool (map ((!) xs) [0..<?n]) ?n (nat k) (rng w)
      = (map ((!) xs) ?idxs, snd (sample_pool [0..<?n] ?n (nat k) (rng w)))"
    using k by (intro sample_pool_map) simp_all
  then have s: "sample_pool xs ?n (nat k) (rng w)
      = (map ((!) xs) ?idxs, snd (sample_pool [0..<?n] ?n (nat k) (rng w)))"
    by (simp add: map_nth)
  have d: "distinct ?idxs \<and> set ?idxs \<subseteq> set (take ?n [0..<?n]) \<and> length ?idxs = nat k"
    using k by (intro sample_pool_distinct) simp_all
  show ?thesis
    using assms s d by (auto simp: random_sample_def intro!: exI [of _ ?idxs])
qed

section \<open>The rounds\<close>

lemma asked_append_Print: "asked (xs @ Print h # ys) = asked xs @ asked (Print h # ys)"
  by (induction xs rule: asked.induct) simp_all

lemma asked_append_Prints [simp]:
  "asked (xs @ [Print a]) = asked xs"
  "asked (xs @ [Print a, Print b]) = asked xs"
  "asked (xs @ [Print a, Print q, Prompt p, Print b]) = asked xs @ [q]"
  by (simp_all add: asked_append_Print)

lemma getitem_error: "getitem q k = Inl e \<Longrightarrow> e = KeyError"
  by (simp add: getitem_def split: option.splits)

lemma question_answer_error: "question_answer m q = Inl e \<Longrightarrow> e = KeyError"
  by (auto simp: question_answer_def split: if_splits sum.splits dest: getitem_error)

lemma question_answer_ready:
  assumes "quiz_ready q"
  shows "\<exists>t a. question_answer m q = Inr (t, PyStr a)"
proof -
  from assms obtain t a b c where
    "getitem q (ustr ''latin_text'') = Inr t"
    "getitem q (ustr ''english_translation'') = Inr (PyStr a)"
    "getitem q (ustr ''author'') = Inr (PyStr b)"
    "getitem q (ustr ''work'') = Inr (PyStr c)"
    unfolding quiz_ready_def getitem_def dict_get_def
    by (auto elim!: is_str.elims)
  then show ?thesis by (simp add: question_answer_def)
qed

lemma play_round_ready:
  assumes "quiz_ready q" and "stdin w = u # rest"
  shows "\<exists>score' w' m v. play_round n i q score w = (Inr score', w')
           \<and> stdin w' = rest \<and> m \<in> set game_modes \<and> data_file w' = data_file w
           \<and> stdout w' = stdout w @ [Print (round_msg i n), Print (question_of m q),
                                       Prompt answer_prompt, Print v]"
proof -
  let ?m = "game_modes ! (rng w 0 mod 3)"
  have len3: "length game_modes = 3" by (simp add: game_modes_def)
  have m: "?m \<in> set game_modes" by (rule nth_mem) (simp add: len3)
  obtain t a where qa: "question_answer ?m q = Inr (t, PyStr a)"
    using question_answer_ready [OF assms(1)] by blast
  then have qo: "question_of ?m q = t" by (simp add: question_of_def)
  show ?thesis
    using assms(2) qa m qo [symmetric]
    by (auto simp: play_round_def random_choice_def randbelow_def py_input_def len3
        intro!: exI [of _ ?m])
qed

lemma play_round_no_ValueError: "fst (play_round n i q score w) \<noteq> Inl ValueError"
  by (auto simp: play_round_def random_choice_def randbelow_def py_input_def
      split: prod.splits sum.splits list.splits pyval.splits dest: question_answer_error)

lemma play_loop_no_ValueError: "fst (play_loop n i gq score w) \<noteq> Inl ValueError"
proof (induction gq arbitrary: i score w)
  case Nil
  show ?case by simp
next
  case (Cons q gq)
  show ?case
  proof (cases "play_round n i q score w")
    case (Pair r w')
    show ?thesis
    proof (cases r)
      case (Inl e)
      with Pair play_round_no_ValueError [of n i q score w] show ?thesis by simp
    next
      case (Inr s)
      with Pair Cons.IH [of "Suc i" s w'] show ?thesis by simp
    qed
  qed
qed

lemma play_loop_ready:
  assumes "\<forall>q\<in>set gq. quiz_ready q" and "length gq \<le> length (stdin w)"
  shows "\<exists>score' w' modes. play_loop n i gq score w = (Inr score', w')
           \<and> stdin w' = drop (length gq) (stdin w) \<and> data_file w' = data_file w
           \<and> length modes = length gq \<and> set modes \<subseteq> set game_modes
           \<and> asked (stdout w') = asked (stdout w) @ map2 question_of modes gq"
  using assms
proof (induction gq arbitrary: i score w)
  case Nil
  show ?case by simp
next
  case (Cons q gq)
  from Cons.prems(2) obtain u rest where inp: "stdin w = u # rest"
    by (cases "stdin w") auto
  from Cons.prems(1) have rq: "quiz_ready q" and rgq: "\<forall>q\<in>set gq. quiz_ready q" by simp_all
  from play_round_ready [OF rq inp, of n i score]
  obtain s1 w1 m v where r: "play_round n i q score w = (Inr s1, w1)"
    and i1: "stdin w1 = rest" and m: "m \<in> set game_modes" and f1: "data_file w1 = data_file w"
    and o1: "stdout w1 = stdout w @ [Print (round_msg i n), Print (question_of m q),
                                       Prompt answer_prompt, Print v]"
    by blast
  have len: "length gq \<le> length (stdin w1)" using Cons.prems(2) inp i1 by simp
  from Cons.IH [OF rgq len, of "Suc i" s1]
  obtain s2 w2 modes where l: "play_loop n (Suc i) gq s1 w1 = (Inr s2, w2)"
    and i2: "stdin w2 = drop (length gq) (stdin w1)" and f2: "data_file w2 = data_file w1"
    and lm: "length modes = length gq" and sm: "set modes \<subseteq> set game_modes"
    and a2: "asked (stdout w2) = asked (stdout w1) @ map2 question_of modes gq"
    by blast
  have "play_loop n i (q # gq) score w = (Inr s2, w2)" using r l by simp
  moreover have "stdin w2 = drop (length (q # gq)) (stdin w)" using i2 i1 inp by simp
  moreover have "asked (stdout w2) = asked (stdout w) @ map2 question_of (m # modes) (q # gq)"
    using a2 o1 by simp
  ultimately show ?case
    using f1 f2 lm sm m by (intro exI [of _ s2] exI [of _ w2] exI [of _ "m # modes"]) simp
qed


section \<open>The number of questions\<close>

text \<open>
  C2, for \<open>rounds\<close> that are not negative. On a non-empty collection of \<open>k\<close> quotes
  and for every \<open>rounds \<ge> 0\<close>, zero and numbers far above \<open>k\<close> included, \<open>play\<close>
  does not raise \<open>ValueError\<close>: \<open>random.sample\<close> is asked for \<open>min(rounds, k)\<close>
  quotes and returns that many.
\<close>

theorem play_clamps_rounds:
  assumes "load_quotes w = (Inr quotes, w1)" and "quotes \<noteq> []" and "0 \<le> rounds"
  shows "fst (play rounds w) \<noteq> Inl ValueError
       \<and> (\<exists>game_quotes w2.
             random_sample quotes (min rounds (int (length quotes))) (py_print welcome_msg w1)
               = (Inr game_quotes, w2)
             \<and> int (length game_quotes) = min rounds (int (length quotes)))"
proof -
  let ?n = "min rounds (int (length quotes))"
  have n: "0 \<le> ?n" "?n \<le> int (length quotes)" using assms(3) by simp_all
  from random_sample_indices [OF n, of "py_print welcome_msg w1"]
  obtain idxs w2 where s: "random_sample quotes ?n (py_print welcome_msg w1)
      = (Inr (map ((!) quotes) idxs), w2)" and l: "length idxs = nat ?n"
    by blast
  have len: "int (length (map ((!) quotes) idxs)) = ?n" using l n(1) by simp
  have "fst (play rounds w) \<noteq> Inl ValueError"
    using assms(1,2) s play_loop_no_ValueError [of ?n 0 "map ((!) quotes) idxs" 0 w2]
    by (auto simp: play_def Let_def split: prod.splits sum.splits)
  with s len show ?thesis by blast
qed

text \<open>
  C1, for \<open>rounds\<close> that are not negative. On a non-empty collection of \<open>k\<close> quotes
  that have the fields a round reads, with \<open>rounds \<ge> 0\<close> and a line of input for each
  question, \<open>play\<close> returns after asking exactly \<open>min(rounds, k)\<close> questions. They are
  the questions of the quotes at pairwise different positions \<open>idxs\<close> of the
  collection, each in one of the three modes, and one line of input is read for each.
\<close>

theorem play_asks_distinct_sample:
  assumes "load_quotes w = (Inr quotes, w1)" and "quotes \<noteq> []" and "0 \<le> rounds"
    and "\<forall>q\<in>set quotes. quiz_ready q"
    and "nat (min rounds (int (length quotes))) \<le> length (stdin w)"
  shows "\<exists>idxs modes w'. play rounds w = (Inr (), w')
       \<and> length idxs = nat (min rounds (int (length quotes)))
       \<and> distinct idxs \<and> (\<forall>i\<in>set idxs. i < length quotes)
       \<and> length modes = length idxs \<and> set modes \<subseteq> set game_modes
       \<and> asked (stdout w') = asked (stdout w) @ map2 question_of modes (map ((!) quotes) idxs)
       \<and> stdin w' = drop (length idxs) (stdin w)"
proof -
  let ?n = "min rounds (int (length quotes))"
  have n: "0 \<le> ?n" "?n \<le> int (length quotes)" using assms(3) by simp_all
  note c = load_quotes_console [OF assms(1)]
  from random_sample_indices [OF n, of "py_print welcome_msg w1"]
  obtain idxs w2 where s: "random_sample quotes ?n (py_print welcome_msg w1)
      = (Inr (map ((!) quotes) idxs), w2)" and l: "length idxs = nat ?n"
    and d: "distinct idxs" and b: "\<forall>i\<in>set idxs. i < length quotes"
    and o2: "stdout w2 = stdout (py_print welcome_msg w1)"
    and i2: "stdin w2 = stdin (py_print welcome_msg w1)"
    by blast
  let ?gq = "map ((!) quotes) idxs"
  have ready: "\<forall>q\<in>set ?gq. quiz_ready q" using assms(4) b by simp
  have enough: "length ?gq \<le> length (stdin w2)" using assms(5) l i2 c by simp
  from play_loop_ready [OF ready enough, of ?n 0 0]
  obtain score w3 modes where p: "play_loop ?n 0 ?gq 0 w2 = (Inr score, w3)"
    and i3: "stdin w3 = drop (length ?gq) (stdin w2)"
    and lm: "length modes = length ?gq" and sm: "set modes \<subseteq> set game_modes"
    and a3: "asked (stdout w3) = asked (stdout w2) @ map2 question_of modes ?gq"
    by blast
  let ?w' = "py_print (final_score_msg score ?n) (py_print game_over_msg w3)"
  have "play rounds w = (Inr (), ?w')"
    using assms(1,2) s p by (simp add: play_def)
  moreover have "asked (stdout ?w') = asked (stdout w) @ map2 question_of modes ?gq"
    using a3 o2 c by simp
  moreover have "stdin ?w' = drop (length idxs) (stdin w)"
    using i3 i2 c by simp
  ultimately show ?thesis
    using l d b lm sm by (intro exI [of _ idxs] exI [of _ modes] exI [of _ ?w']) simp
qed

theorem play_clamps_rounds_witness:
  "fst (play 1000000 (example_world [ustr ''i came''])) \<noteq> Inl ValueError"
  using play_clamps_rounds [OF load_example, of 1000000 "[ustr ''i came'']"]
  by (simp add: example_quotes_def)

text \<open>
  With \<open>--rounds -1\<close> on a collection of one quote the sample size is \<open>-1\<close>:
  \<open>random.sample\<close> raises \<open>ValueError\<close>, which leaves \<open>play\<close>, and the process
  ends with a traceback.
\<close>

theorem play_negative_rounds_traceback:
  "fst (app (play (- 1)) (example_world [ustr ''i came''])) = Traceback ValueError"
  by (simp add: app_def play_def load_example random_sample_def example_quotes_def)

theorem play_asks_distinct_sample_witness:
  "\<exists>(idxs :: nat list) (modes :: pystr list) w'.
     play 5 (example_world [ustr ''i came'']) = (Inr (), w')
     \<and> length idxs = 1 \<and> distinct idxs \<and> length modes = 1
     \<and> length (asked (stdout w')) = 1 \<and> stdin w' = []"
proof -
  have ne: "example_quotes \<noteq> []"
    by (simp add: example_quotes_def)
  have n: "nat (min 5 (int (length example_quotes))) \<le> length (stdin (example_world [ustr ''i came'']))"
    by (simp add: example_quotes_def)
  from play_asks_distinct_sample [OF load_example ne _ example_quotes_ready n]
  obtain idxs modes w' where p: "play 5 (example_world [ustr ''i came'']) = (Inr (), w')"
    and l: "length idxs = nat (min 5 (int (length example_quotes)))"
    and d: "distinct idxs" and lm: "length modes = length idxs"
    and a: "asked (stdout w') = asked (stdout (example_world [ustr ''i came'']))
              @ map2 question_of modes (map ((!) example_quotes) idxs)"
    and i: "stdin w' = drop (length idxs) (stdin (example_world [ustr ''i came'']))"
    by auto
  from l have l1: "length idxs = 1" by (simp add: example_quotes_def)
  have aa: "length (asked (stdout w')) = 1" using a l1 lm by simp
  have ii: "stdin w' = []" using i l1 by simp
  show ?thesis
    by (intro exI [of _ idxs] exI [of _ modes] exI [of _ w']) (simp add: p l1 d lm aa ii)
qed

text \<open>
  With \<open>--rounds -2\<close> on a collection of one quote, \<open>play\<close> raises \<open>ValueError\<close>
  before the first round: it asks no question.
\<close>

theorem play_negative_rounds_asks_nothing:
  "fst (play (- 2) (example_world [ustr ''i came''])) = Inl ValueError
   \<and> asked (stdout (snd (play (- 2) (example_world [ustr ''i came''])))) = []"
  by (simp add: play_def load_example random_sample_def example_quotes_def)

section \<open>list\<close>

lemma list_quote_listing:
  assumes "map_of q (ustr ''id'') \<noteq> None"
  shows "\<exists>w'. list_quote q w = (Inr (), w') \<and> stdout w' = stdout w @ listing q
           \<and> stdin w' = stdin w \<and> data_file w' = data_file w"
proof -
  from assms obtain i where i: "map_of q (ustr ''id'') = Some i" by auto
  have t: "truthy (Some v) \<longleftrightarrow> \<not> (v = PyStr [] \<or> v = PyInt 0)" for v
    by (cases v) auto
  show ?thesis
    using i
    by (auto simp: list_quote_def getitem_def dict_get_def get_or_def listing_def shown_def t
        split: option.splits)
qed

lemma list_loop_listing:
  assumes "\<forall>q\<in>set qs. map_of q (ustr ''id'') \<noteq> None"
  shows "\<exists>w'. list_loop qs w = (Inr (), w') \<and> stdout w' = stdout w @ concat (map listing qs)
           \<and> stdin w' = stdin w \<and> data_file w' = data_file w"
  using assms
proof (induction qs arbitrary: w)
  case Nil
  show ?case by simp
next
  case (Cons q qs)
  from Cons.prems have "map_of q (ustr ''id'') \<noteq> None" and rest: "\<forall>q\<in>set qs. map_of q (ustr ''id'') \<noteq> None"
    by simp_all
  from list_quote_listing [OF this(1), of w]
  obtain w1 where q: "list_quote q w = (Inr (), w1)" and o1: "stdout w1 = stdout w @ listing q"
    and i1: "stdin w1 = stdin w" and f1: "data_file w1 = data_file w"
    by blast
  from Cons.IH [OF rest, of w1]
  obtain w2 where l: "list_loop qs w1 = (Inr (), w2)"
    and o2: "stdout w2 = stdout w1 @ concat (map listing qs)"
    and i2: "stdin w2 = stdin w1" and f2: "data_file w2 = data_file w1"
    by blast
  show ?case using q l o1 o2 i1 i2 f1 f2 by simp
qed

text \<open>
  C9, for collections in which every quote has an id. \<open>list\<close> returns without an
  error and prints, between the header and the closing line, the lines of every quote
  in order: the id, then Latin, English, author and work with \<open>N/A\<close> for a missing
  field, and the notes unless they are missing or empty. For the empty collection it
  prints that the database is empty.
\<close>

theorem list_quotes_prints_all:
  assumes "load_quotes w = (Inr quotes, w1)"
    and "\<forall>q\<in>set quotes. map_of q (ustr ''id'') \<noteq> None"
  shows "\<exists>w'. list_quotes w = (Inr (), w') \<and> app list_quotes w = (ExitCode 0, w')
       \<and> stdout w' = stdout w @
           (if quotes = [] then [Print ([128218] @ ustr '' The database is empty.'')]
            else [Print (ustr ''--- '' @ [128214] @ ustr '' All Quotes in Database ---'')]
                 @ concat (map listing quotes)
                 @ [Print (ustr ''------------------------------'')])"
proof (cases "quotes = []")
  case True
  with assms(1) load_quotes_console [OF assms(1)] show ?thesis
    by (simp add: list_quotes_def app_def)
next
  case False
  let ?h = "py_print (ustr ''--- '' @ [128214] @ ustr '' All Quotes in Database ---'') w1"
  from list_loop_listing [OF assms(2), of ?h]
  obtain w2 where l: "list_loop quotes ?h = (Inr (), w2)"
    and o2: "stdout w2 = stdout ?h @ concat (map listing quotes)"
    by blast
  let ?w' = "py_print (ustr ''------------------------------'') w2"
  have p: "list_quotes w = (Inr (), ?w')"
    using assms(1) False l by (simp add: list_quotes_def)
  have "app list_quotes w = (ExitCode 0, ?w')"
    by (simp add: app_def p)
  with p o2 False load_quotes_console [OF assms(1)] show ?thesis by simp
qed

theorem list_quotes_prints_all_witness:
  "fst (list_quotes (example_world [])) = Inr ()
   \<and> stdout (snd (list_quotes (example_world [])))
       = [Print (ustr ''--- '' @ [128214] @ ustr '' All Quotes in Database ---''),
          Print ([10] @ ustr ''ID: 1''),
          Print (ustr ''  Latin: Veni''),
          Print (ustr ''  English: I came''),
          Print (ustr ''  Author: Caesar''),
          Print (ustr ''  Work: BG''),
          Print (ustr ''------------------------------'')]"
proof -
  have ids: "\<forall>q\<in>set example_quotes. map_of q (ustr ''id'') \<noteq> None"
    by (simp add: example_quotes_def ustr_def)
  have l: "concat (map listing example_quotes)
        = [Print ([10] @ ustr ''ID: 1''), Print (ustr ''  Latin: Veni''),
           Print (ustr ''  English: I came''), Print (ustr ''  Author: Caesar''),
           Print (ustr ''  Work: BG'')]"
    by (simp add: example_quotes_def listing_def shown_def ustr_def str_int_def str_nat.simps)
  have ne: "example_quotes \<noteq> []"
    by (simp add: example_quotes_def)
  from list_quotes_prints_all [OF load_example [of "[]"] ids]
  obtain w' where p: "list_quotes (example_world []) = (Inr (), w')"
    and o: "stdout w' = stdout (example_world []) @
           (if example_quotes = [] then [Print ([128218] @ ustr '' The database is empty.'')]
            else [Print (ustr ''--- '' @ [128214] @ ustr '' All Quotes in Database ---'')]
                 @ concat (map listing example_quotes)
                 @ [Print (ustr ''------------------------------'')])"
    by blast
  show ?thesis using p o ne by (simp add: l)
qed

text \<open>
  The id is read with \<open>quote['id']\<close>, not with \<open>get\<close>: on a stored quote without an
  id, \<open>list\<close> raises \<open>KeyError\<close>.
\<close>

theorem list_quotes_missing_id_fails:
  "fst (list_quotes no_id_world) = Inl KeyError
   \<and> fst (app list_quotes no_id_world) = Traceback KeyError"
  by (simp add: app_def list_quotes_def load_no_id list_quote_def getitem_def ustr_def)

section \<open>add\<close>

lemma get_next_id_ints:
  assumes "map (\<lambda>q. getitem q (ustr ''id'')) quotes = map (\<lambda>n. Inr (PyInt n)) ns"
  shows "get_next_id quotes = Inr (PyInt (if ns = [] then 1 else Max (set ns) + 1))"
proof (cases quotes)
  case Nil
  with assms show ?thesis by (simp add: get_next_id_def)
next
  case (Cons q qs)
  with assms obtain n ns' where ns: "ns = n # ns'"
    and q: "getitem q (ustr ''id'') = Inr (PyInt n)"
    and rest: "map (\<lambda>q. getitem q (ustr ''id'')) qs = map (\<lambda>n. Inr (PyInt n)) ns'"
    by (cases ns) auto
  show ?thesis
    unfolding Cons ns using q max_ids_ints [OF rest, of n]
    by (simp add: get_next_id_def)
qed

text \<open>
  C4. When the ids of the stored quotes are the integers \<open>ns\<close>, \<open>add\<close> saves the
  collection with one more quote at its end, whose id is greater than every id in
  \<open>ns\<close>; so if the ids were pairwise different, they still are.
\<close>

theorem add_assigns_fresh_id:
  assumes "load_quotes w = (Inr quotes, w1)"
    and "map (\<lambda>q. getitem q (ustr ''id'')) quotes = map (\<lambda>n. Inr (PyInt n)) ns"
  shows "\<exists>new_id w0. get_next_id quotes = Inr (PyInt new_id)
       \<and> (\<forall>n\<in>set ns. n < new_id)
       \<and> (distinct ns \<longrightarrow> distinct (ns @ [new_id]))
       \<and> add latin_text english_translation author work notes w
           = (case save_quotes
                     (quotes @ [[(ustr ''latin_text'', PyStr latin_text),
                                 (ustr ''english_translation'', PyStr english_translation),
                                 (ustr ''author'', PyStr author),
                                 (ustr ''work'', PyStr work),
                                 (ustr ''notes'', PyStr notes),
                                 (ustr ''id'', PyInt new_id)]]) w0 of
                (Inl e, w2) \<Rightarrow> (Inl e, w2)
              | (Inr u, w2) \<Rightarrow>
                  (Inr (), py_print ([10, 10024] @ ustr '' Quote added successfully with ID: ''
                                      @ str_int new_id) w2))"
proof -
  define new_id where "new_id = (if ns = [] then 1 else Max (set ns) + 1)"
  let ?w0 = "py_print (ustr ''Please provide the following details (press Enter to skip a field).'')
               (py_print (ustr ''--- '' @ [9997, 65039] @ ustr '' Add a New Latin Quote ---'') w1)"
  have g: "get_next_id quotes = Inr (PyInt new_id)"
    unfolding new_id_def by (rule get_next_id_ints [OF assms(2)])
  have gt: "\<forall>n\<in>set ns. n < new_id"
    unfolding new_id_def by (auto simp: less_Suc_eq_le intro: Max_ge le_less_trans [OF Max_ge])
  then have d: "distinct ns \<longrightarrow> distinct (ns @ [new_id])"
    by auto
  have "add latin_text english_translation author work notes w
      = (case save_quotes
                     (quotes @ [[(ustr ''latin_text'', PyStr latin_text),
                                 (ustr ''english_translation'', PyStr english_translation),
                                 (ustr ''author'', PyStr author),
                                 (ustr ''work'', PyStr work),
                                 (ustr ''notes'', PyStr notes),
                                 (ustr ''id'', PyInt new_id)]]) ?w0 of
                (Inl e, w2) \<Rightarrow> (Inl e, w2)
              | (Inr u, w2) \<Rightarrow>
                  (Inr (), py_print ([10, 10024] @ ustr '' Quote added successfully with ID: ''
                                      @ str_int new_id) w2))"
    using assms(1) g
    by (simp add: add_def Let_def load_quotes_py_print split: prod.splits sum.splits)
  with g gt d show ?thesis by blast
qed

theorem add_assigns_fresh_id_witness:
  "\<exists>w0. add (ustr ''Vidi'') (ustr ''I saw'') (ustr ''Caesar'') (ustr ''BG'') [] (example_world [])
     = (case save_quotes
               (example_quotes @ [[(ustr ''latin_text'', PyStr (ustr ''Vidi'')),
                                   (ustr ''english_translation'', PyStr (ustr ''I saw'')),
                                   (ustr ''author'', PyStr (ustr ''Caesar'')),
                                   (ustr ''work'', PyStr (ustr ''BG'')),
                                   (ustr ''notes'', PyStr []),
                                   (ustr ''id'', PyInt 2)]]) w0 of
          (Inl e, w2) \<Rightarrow> (Inl e, w2)
        | (Inr u, w2) \<Rightarrow>
            (Inr (), py_print ([10, 10024] @ ustr '' Quote added successfully with ID: ''
                                @ str_int 2) w2))"
proof -
  have ids: "map (\<lambda>q. getitem q (ustr ''id'')) example_quotes = map (\<lambda>n. Inr (PyInt n)) [1]"
    by (simp add: example_quotes_def getitem_def)
  have g: "get_next_id example_quotes = Inr (PyInt 2)"
    using get_next_id_ints [OF ids] by simp
  from add_assigns_fresh_id [OF load_example ids, of "ustr ''Vidi''" "ustr ''I saw''"
      "ustr ''Caesar''" "ustr ''BG''" "[]"]
  show ?thesis unfolding g by auto
qed

section \<open>Saving and loading again\<close>

subsection \<open>UTF-8\<close>













subsection \<open>Strings\<close>





subsection \<open>Integers\<close>












subsection \<open>Values, objects and arrays\<close>
















subsection \<open>The text that is written\<close>

lemma text_ok_append [simp]: "text_ok (a @ b) = (text_ok a \<and> text_ok b)"
  by (simp add: text_ok_def)

lemma text_ok_Cons [simp]: "text_ok (c # s) = (is_scalar c \<and> text_ok s)"
  by (simp add: text_ok_def)

lemma text_ok_Nil [simp]: "text_ok []"
  by (simp add: text_ok_def)















subsection \<open>From the text back to the collection\<close>











end
